theory Spec2Isabelle
  imports Complex_Main "HOL-Library.Sublist"
begin

section \<open>Python values, formatting and exceptions\<close>

text \<open>
  The two modules receive dynamically typed arguments: the \<open>rotation\<close> option of
  \<open>AngleEmbedding\<close> and the \<open>interface\<close> attribute of a QNode collection may be a
  string, \<open>None\<close> or something else. Three kinds of Python value are enough to tell the
  branches of the source apart.
\<close>

datatype py = PyNone | PyInt int | PyStr string

datatype py_type = NoneType | IntType | StrType

fun type_of :: "py \<Rightarrow> py_type" where
  "type_of PyNone = NoneType"
| "type_of (PyInt i) = IntType"
| "type_of (PyStr s) = StrType"

text \<open>Decimal rendering of integers, as \<open>str\<close> and \<open>str.format\<close> produce it.\<close>

definition digit_char :: "nat \<Rightarrow> char" where
  "digit_char d = ''0123456789'' ! d"

fun str_nat :: "nat \<Rightarrow> string" where
  "str_nat n = (if n < 10 then [digit_char n] else str_nat (n div 10) @ [digit_char (n mod 10)])"

declare str_nat.simps [simp del]

definition str_int :: "int \<Rightarrow> string" where
  "str_int i = (if i < 0 then ''-'' @ str_nat (nat (- i)) else str_nat (nat i))"

fun py_str :: "py \<Rightarrow> string" where
  "py_str PyNone = ''None''"
| "py_str (PyInt i) = str_int i"
| "py_str (PyStr s) = s"

text \<open>\<open>str\<close> of a tuple of integers: \<open>()\<close>, \<open>(3,)\<close>, \<open>(2, 3)\<close>.\<close>

fun str_tuple :: "nat list \<Rightarrow> string" where
  "str_tuple [] = ''()''"
| "str_tuple [n] = ''('' @ str_nat n @ '',)''"
| "str_tuple (n # ns) = ''('' @ str_nat n @ concat (map (\<lambda>m. '', '' @ str_nat m) ns) @ '')''"

text \<open>
  An exception is its class together with its message (\<open>str(e)\<close>); an
  \<open>AttributeError\<close> carries the name of the missing attribute.
  \<open>ValueErrorSubclass\<close> is an instance of a proper subclass of \<open>ValueError\<close> (such as
  \<open>UnicodeDecodeError\<close>) and \<open>OtherException\<close> an instance of any class that is neither
  named here nor derived from \<open>ValueError\<close>; both carry the class name first.
\<close>

datatype exn =
    ValueError string
  | ValueErrorSubclass string string
  | TypeError string
  | AttributeError string
  | OtherException string string

text \<open>
  What \<open>except ValueError as e\<close> catches: instances of \<open>ValueError\<close> and of its
  subclasses. The result is \<open>str(e)\<close> for an exception that is caught and \<open>None\<close> for
  one that is not.
\<close>

fun as_ValueError :: "exn \<Rightarrow> string option" where
  "as_ValueError (ValueError s) = Some s"
| "as_ValueError (ValueErrorSubclass c s) = Some s"
| "as_ValueError (TypeError s) = None"
| "as_ValueError (AttributeError a) = None"
| "as_ValueError (OtherException c s) = None"

section \<open>Operations and the recording queue\<close>

text \<open>
  Constructing a gate inside a template appends it to the queue of the recording
  context, which the \<open>@template\<close> decorator hands back as the result. The queue is
  threaded through the model: every function takes the queue so far and returns the
  queue afterwards together with the exception raised, if any.
\<close>

datatype ('a, 'w) operation = RX 'a 'w | RY 'a 'w | RZ 'a 'w

fun op_wire :: "('a, 'w) operation \<Rightarrow> 'w" where
  "op_wire (RX a w) = w"
| "op_wire (RY a w) = w"
| "op_wire (RZ a w) = w"

fun op_angle :: "('a, 'w) operation \<Rightarrow> 'a" where
  "op_angle (RX a w) = a"
| "op_angle (RY a w) = a"
| "op_angle (RZ a w) = a"

text \<open>Whether an operation is an \<open>RX\<close> rotation.\<close>

fun is_RX :: "('a, 'w) operation \<Rightarrow> bool" where
  "is_RX (RX a w) = True"
| "is_RX (RY a w) = False"
| "is_RX (RZ a w) = False"

type_synonym ('a, 'w) queue = "('a, 'w) operation list"

type_synonym ('a, 'w) outcome = "('a, 'w) queue \<times> exn option"

section \<open>The functions that \<open>angle.py\<close> imports\<close>

text \<open>
  \<open>angle.py\<close> imports \<open>broadcast\<close> from \<open>pennylane.templates\<close> and \<open>check_shape\<close>,
  \<open>check_type\<close>, \<open>check_is_in_options\<close> and \<open>get_shape\<close> from
  \<open>pennylane.templates.utils\<close>. The template is modelled over any implementation of
  them: the validators are functions of their arguments that return the exception
  they raise, if any, and \<open>broadcast\<close> may queue operations and may raise.
  The feature vector is a one-dimensional sequence and \<open>wires\<close> is the \<open>Wires\<close> object
  (the ordered sequence of wire labels), for which \<open>Wires(wires)\<close> is the object itself.
\<close>

record ('a, 'w) helpers =
  get_shape :: "'a list \<Rightarrow> nat list"
  check_shape :: "'a list \<Rightarrow> nat list \<Rightarrow> string \<Rightarrow> string \<Rightarrow> exn option"
  check_type :: "py \<Rightarrow> py_type list \<Rightarrow> string \<Rightarrow> exn option"
  check_is_in_options :: "py \<Rightarrow> py list \<Rightarrow> string \<Rightarrow> exn option"
  broadcast :: "('a \<Rightarrow> 'w \<Rightarrow> ('a, 'w) operation) \<Rightarrow> string \<Rightarrow> 'w list \<Rightarrow> 'a list
                  \<Rightarrow> ('a, 'w) queue \<Rightarrow> ('a, 'w) outcome"

section \<open>\<open>angle.py\<close>\<close>

text \<open>
  \<open>_broadcast_no_shape_check\<close>: calls \<open>broadcast\<close> and catches a \<open>ValueError\<close>
  (an instance of the class or of a subclass); the error is raised again when the text
  \<open>"must contain entries for {} unitaries".format(len(wires))\<close> does not occur in its
  message, and is dropped otherwise. Python's \<open>msg in str(e)\<close> on strings is the
  contiguous-sublist test \<^const>\<open>sublist\<close>.
\<close>

definition broadcast_no_shape_check ::
  "('a, 'w) helpers \<Rightarrow> ('a \<Rightarrow> 'w \<Rightarrow> ('a, 'w) operation) \<Rightarrow> string \<Rightarrow> 'w list \<Rightarrow> 'a list
     \<Rightarrow> ('a, 'w) queue \<Rightarrow> ('a, 'w) outcome" where
  "broadcast_no_shape_check h unitary pattern wires parameters q =
     (case broadcast h unitary pattern wires parameters q of
        (q', None) \<Rightarrow> (q', None)
      | (q', Some e) \<Rightarrow>
          (case as_ValueError e of
             Some str_e \<Rightarrow>
               (let msg = ''must contain entries for '' @ str_nat (length wires) @ '' unitaries''
                in if \<not> sublist msg str_e then (q', Some e) else (q', None))
           | None \<Rightarrow> (q', Some e)))"

text \<open>
  The three \<open>msg=\<close> arguments of the input checks, formatted as the source does:
  \<open>"'features' must be of shape {} or smaller; got {}.".format((len(wires),), get_shape(features))\<close>,
  \<open>"'rotation' must be a string; got {}".format(rotation)\<close> and
  \<open>"did not recognize option {} for 'rotation'.".format(rotation)\<close>.
\<close>

definition features_msg :: "('a, 'w) helpers \<Rightarrow> 'a list \<Rightarrow> 'w list \<Rightarrow> string" where
  "features_msg h features wires =
     CHR 0x27 # ''features' must be of shape '' @ str_tuple [length wires]
       @ '' or smaller; got '' @ str_tuple (get_shape h features) @ ''.''"

definition rotation_type_msg :: "py \<Rightarrow> string" where
  "rotation_type_msg rotation = CHR 0x27 # ''rotation' must be a string; got '' @ py_str rotation"

definition rotation_option_msg :: "py \<Rightarrow> string" where
  "rotation_option_msg rotation =
     ''did not recognize option '' @ py_str rotation @ '' for 'rotation'.''"

text \<open>
  \<open>AngleEmbedding(features, wires, rotation="X")\<close>. The argument \<open>rotation_arg\<close> is
  \<open>None\<close> when the caller passes no \<open>rotation\<close>, and the default \<open>"X"\<close> is taken then.
  The three checks run in the order of the source; each message is formatted before
  its check is called. A failed check raises, so nothing after it runs.
\<close>

definition AngleEmbedding ::
  "('a, 'w) helpers \<Rightarrow> 'a list \<Rightarrow> 'w list \<Rightarrow> py option \<Rightarrow> ('a, 'w) queue \<Rightarrow> ('a, 'w) outcome" where
  "AngleEmbedding h features wires rotation_arg q =
     (let rotation = (case rotation_arg of None \<Rightarrow> PyStr ''X'' | Some r \<Rightarrow> r) in
      case check_shape h features [length wires] ''max'' (features_msg h features wires) of
        Some e \<Rightarrow> (q, Some e)
      | None \<Rightarrow>
     (case check_type h rotation [StrType] (rotation_type_msg rotation) of
        Some e \<Rightarrow> (q, Some e)
      | None \<Rightarrow>
     (case check_is_in_options h rotation [PyStr ''X'', PyStr ''Y'', PyStr ''Z'']
             (rotation_option_msg rotation) of
        Some e \<Rightarrow> (q, Some e)
      | None \<Rightarrow>
          if rotation = PyStr ''X'' then broadcast_no_shape_check h RX ''single'' wires features q
          else if rotation = PyStr ''Y'' then broadcast_no_shape_check h RY ''single'' wires features q
          else if rotation = PyStr ''Z'' then broadcast_no_shape_check h RZ ''single'' wires features q
          else (q, None))))"

section \<open>The imported functions, as the specification describes them\<close>

text \<open>
  Modelled from the spec: \<open>get_shape\<close> of \<open>pennylane.templates.utils\<close>, which is not
  part of the two source files. The specification speaks of "the actual shape" of a
  one-dimensional feature sequence: a tuple holding its length.
\<close>

definition get_shape_spec :: "'a list \<Rightarrow> nat list" where
  "get_shape_spec inpt = [length inpt]"

text \<open>
  Modelled from the spec: \<open>check_shape\<close> of \<open>pennylane.templates.utils\<close>, called with
  \<open>bound="max"\<close>. "\<open>features\<close> must be representable as a 1-D numeric sequence of length
  \<open>\<le> |wires|\<close>; otherwise fails with a ShapeError stating the expected bound and the
  actual shape." The ShapeError is a \<open>ValueError\<close> carrying the message it is given
  (the docstring of \<open>AngleEmbedding\<close>: "Raises: ValueError: if inputs do not have the
  correct format"). The specification describes no other value of \<open>bound\<close>, and the
  model does not look at it.
\<close>

definition check_shape_spec :: "'a list \<Rightarrow> nat list \<Rightarrow> string \<Rightarrow> string \<Rightarrow> exn option" where
  "check_shape_spec inpt target_shape bound msg =
     (if list_all2 (\<le>) (get_shape_spec inpt) target_shape then None else Some (ValueError msg))"

text \<open>
  Modelled from the spec: \<open>check_type\<close> of \<open>pennylane.templates.utils\<close>.
  "\<open>rotationAxis\<close> must be a string-like value; otherwise fails". The specification
  names the failure a TypeError; the docstring of \<open>AngleEmbedding\<close> announces one class
  for every input of the wrong format ("Raises: ValueError: if inputs do not have the
  correct format"), and the source is followed: the failure is a \<open>ValueError\<close> carrying
  the message it is given.
\<close>

definition check_type_spec :: "py \<Rightarrow> py_type list \<Rightarrow> string \<Rightarrow> exn option" where
  "check_type_spec element types msg =
     (if type_of element \<in> set types then None else Some (ValueError msg))"

text \<open>
  Modelled from the spec: \<open>check_is_in_options\<close> of \<open>pennylane.templates.utils\<close>.
  "\<open>rotationAxis\<close> must be one of {"X","Y","Z"}; otherwise fails". The specification
  names the failure an InvalidOptionError; as for \<open>check_type\<close>, the class is the
  \<open>ValueError\<close> that the docstring of \<open>AngleEmbedding\<close> announces.
\<close>

definition check_is_in_options_spec :: "py \<Rightarrow> py list \<Rightarrow> string \<Rightarrow> exn option" where
  "check_is_in_options_spec element options msg =
     (if element \<in> set options then None else Some (ValueError msg))"

text \<open>
  Modelled from the spec: \<open>broadcast\<close> of \<open>pennylane.templates\<close>, for the pattern
  \<open>"single"\<close>, the only one \<open>AngleEmbedding\<close> asks for (the model does not look at
  \<open>pattern\<close>). The specification calls it the "underlying routine that maps a sequence
  of operation parameters onto a sequence of wires according to a pattern" and says
  that it performs "a stricter length-match check" and raises a "parameter count
  mismatch for unitaries" error; errors are raised "rather than producing partial or
  silently-truncated results". So the model checks first: when the number of
  parameters differs from the number of wires it raises the count mismatch and
  queues nothing, and otherwise it queues one operation for each wire, pairing
  parameters and wires in order. The text of the message is not in the
  specification; it is written here around the phrase that
  \<open>_broadcast_no_shape_check\<close> looks for.
\<close>

definition broadcast_spec ::
  "('a \<Rightarrow> 'w \<Rightarrow> ('a, 'w) operation) \<Rightarrow> string \<Rightarrow> 'w list \<Rightarrow> 'a list
     \<Rightarrow> ('a, 'w) queue \<Rightarrow> ('a, 'w) outcome" where
  "broadcast_spec unitary pattern wires parameters q =
     (if length parameters \<noteq> length wires
      then (q, Some (ValueError (''Parameters must contain entries for '' @ str_nat (length wires)
                      @ '' unitaries; got '' @ str_nat (length parameters) @ '' entries'')))
      else (q @ map2 unitary parameters wires, None))"

text \<open>The five functions above together.\<close>

definition spec_helpers :: "('a, 'w) helpers" where
  "spec_helpers =
     \<lparr> get_shape = get_shape_spec,
       check_shape = check_shape_spec,
       check_type = check_type_spec,
       check_is_in_options = check_is_in_options_spec,
       broadcast = broadcast_spec \<rparr>"

section \<open>\<open>sum.py\<close>\<close>

text \<open>
  \<open>_get_sum_func\<close> returns one of four library functions, which are values of their
  own here. The imports inside the branches are taken to succeed.
\<close>

datatype sum_func = tf_reduce_sum | torch_sum | autograd_numpy_sum | numpy_sum

definition get_sum_func :: "py \<Rightarrow> exn + sum_func" where
  "get_sum_func interface =
     (if interface = PyStr ''tf'' then Inr tf_reduce_sum
      else if interface = PyStr ''torch'' then Inr torch_sum
      else if interface \<in> set [PyStr ''autograd'', PyStr ''numpy''] then Inr autograd_numpy_sum
      else if interface = PyNone then Inr numpy_sum
      else Inl (ValueError (''Unknown interface '' @ py_str interface)))"

text \<open>
  The argument of \<open>sum\<close> is an object with attributes (a dictionary from attribute
  names to values) that holds computation units. \<open>getattr(x, name, default)\<close> never
  fails; the attribute access \<open>x.name\<close> raises \<open>AttributeError\<close> when the attribute
  is missing.
\<close>

record ('p, 'r) collection =
  attrs :: "string \<rightharpoonup> py"
  qnodes :: "('p \<Rightarrow> 'r) list"

definition getattr :: "('p, 'r) collection \<Rightarrow> string \<Rightarrow> py \<Rightarrow> py" where
  "getattr x name dflt = (case attrs x name of None \<Rightarrow> dflt | Some v \<Rightarrow> v)"

definition attribute :: "('p, 'r) collection \<Rightarrow> string \<Rightarrow> exn + py" where
  "attribute x name = (case attrs x name of None \<Rightarrow> Inl (AttributeError name) | Some v \<Rightarrow> Inr v)"

text \<open>
  Evaluating a computation unit is an event. The log records every evaluation, as
  the index of the unit and the parameters it was given, in the order they happen.
  What \<open>sum\<close> returns is a function of the parameters that may evaluate units, so it
  takes the log and returns it extended.
\<close>

type_synonym 'p log = "(nat \<times> 'p) list"

type_synonym ('p, 'r) lazy_fn = "'p \<Rightarrow> 'p log \<Rightarrow> 'r \<times> 'p log"

text \<open>
  \<open>sum(x)\<close>, over any implementation of the imported \<open>apply\<close>. It is given the
  log, so that an implementation that evaluated units while building the function
  would show in the log. The value bound to \<open>interface\<close> on the first line is not
  used afterwards.
\<close>

definition sum_collection ::
  "(sum_func \<Rightarrow> ('p, 'r) collection \<Rightarrow> 'p log \<Rightarrow> ('p, 'r) lazy_fn \<times> 'p log)
     \<Rightarrow> ('p, 'r) collection \<Rightarrow> 'p log \<Rightarrow> (exn + ('p, 'r) lazy_fn) \<times> 'p log" where
  "sum_collection apply_fn x l =
     (let interface = getattr x ''interface'' PyNone in
      case attribute x ''interface'' of
        Inl e \<Rightarrow> (Inl e, l)
      | Inr i \<Rightarrow>
     (case get_sum_func i of
        Inl e \<Rightarrow> (Inl e, l)
      | Inr sum_fn \<Rightarrow> (case apply_fn sum_fn x l of (f, l') \<Rightarrow> (Inr f, l'))))"

text \<open>
  Modelled from the spec: calling the collection, which \<open>sum.py\<close> does not contain.
  It "evaluates each computation unit in the collection with those parameters
  (producing one numeric result per unit, order preserved)".
\<close>

fun evaluate :: "('p \<Rightarrow> 'r) list \<Rightarrow> nat \<Rightarrow> 'p \<Rightarrow> 'p log \<Rightarrow> 'r list \<times> 'p log" where
  "evaluate [] i params l = ([], l)"
| "evaluate (u # us) i params l =
     (case evaluate us (Suc i) params (l @ [(i, params)]) of (rs, l') \<Rightarrow> (u params # rs, l'))"

text \<open>
  Modelled from the spec: \<open>apply\<close> of \<open>pennylane.collections.apply\<close>, which is not part
  of the two source files. \<open>sum\<close> "returns a function of one argument (the shared input
  parameters) that, when called, evaluates each computation unit in the collection
  with those parameters and applies the resolved reducer to the resulting sequence";
  "no computation unit executes until the returned function is invoked". The
  parameter \<open>backend\<close> is what the four library functions compute.
\<close>

definition apply_spec ::
  "(sum_func \<Rightarrow> 'r list \<Rightarrow> 'r) \<Rightarrow> sum_func \<Rightarrow> ('p, 'r) collection \<Rightarrow> 'p log
     \<Rightarrow> ('p, 'r) lazy_fn \<times> 'p log" where
  "apply_spec backend func x l =
     (\<lambda>params l'. case evaluate (qnodes x) 0 params l' of (rs, l'') \<Rightarrow> (backend func rs, l''), l)"

section \<open>Auxiliary facts\<close>

lemma spec_helpers_simps [simp]:
  "get_shape spec_helpers = get_shape_spec"
  "check_shape spec_helpers = check_shape_spec"
  "check_type spec_helpers = check_type_spec"
  "check_is_in_options spec_helpers = check_is_in_options_spec"
  "broadcast spec_helpers = broadcast_spec"
  by (simp_all add: spec_helpers_def)

lemma sublist_count_msg:
  "sublist (''must contain entries for '' @ str_nat n @ '' unitaries'')
     (''Parameters must contain entries for '' @ str_nat n @ '' unitaries; got '' @ str_nat m @ '' entries'')"
proof -
  have "''Parameters must contain entries for '' @ str_nat n @ '' unitaries; got '' @ str_nat m @ '' entries''
      = ''Parameters '' @ (''must contain entries for '' @ str_nat n @ '' unitaries'') @ (''; got '' @ str_nat m @ '' entries'')"
    by simp
  then show ?thesis
    by (simp only: sublist_appendI)
qed

text \<open>
  Over the modelled \<open>broadcast\<close>, a count mismatch is raised before anything is queued
  and is then dropped: the queue is as before and nothing is raised.
\<close>

lemma broadcast_no_shape_check_spec:
  "broadcast_no_shape_check spec_helpers U p wires features q =
     (if length features = length wires then (q @ map2 U features wires, None) else (q, None))"
  using sublist_count_msg [of "length wires" "length features"]
  by (simp add: broadcast_no_shape_check_def broadcast_spec_def)

text \<open>
  The template queues nothing itself: the queue after \<open>_broadcast_no_shape_check\<close> is
  the queue after \<open>broadcast\<close>, whether the exception is dropped or not.
\<close>

lemma broadcast_no_shape_check_queue:
  "fst (broadcast_no_shape_check h unitary pattern wires parameters q)
     = fst (broadcast h unitary pattern wires parameters q)"
  by (simp add: broadcast_no_shape_check_def Let_def split: prod.splits option.splits)

lemma check_shape_spec_1d:
  "check_shape_spec features [n] b msg = (if length features \<le> n then None else Some (ValueError msg))"
  by (simp add: check_shape_spec_def get_shape_spec_def)

lemma check_type_spec_str:
  "check_type_spec rotation [StrType] msg = (if type_of rotation = StrType then None else Some (ValueError msg))"
  by (simp add: check_type_spec_def)

lemma AngleEmbedding_shape_fails:
  "check_shape h features [length wires] ''max'' (features_msg h features wires) = Some e
   \<Longrightarrow> AngleEmbedding h features wires ra q = (q, Some e)"
  by (simp add: AngleEmbedding_def)

lemma AngleEmbedding_type_fails:
  "check_shape h features [length wires] ''max'' (features_msg h features wires) = None
   \<Longrightarrow> check_type h rotation [StrType] (rotation_type_msg rotation) = Some e
   \<Longrightarrow> AngleEmbedding h features wires (Some rotation) q = (q, Some e)"
  by (simp add: AngleEmbedding_def)

lemma AngleEmbedding_option_fails:
  "check_shape h features [length wires] ''max'' (features_msg h features wires) = None
   \<Longrightarrow> check_type h rotation [StrType] (rotation_type_msg rotation) = None
   \<Longrightarrow> check_is_in_options h rotation [PyStr ''X'', PyStr ''Y'', PyStr ''Z'']
         (rotation_option_msg rotation) = Some e
   \<Longrightarrow> AngleEmbedding h features wires (Some rotation) q = (q, Some e)"
  by (simp add: AngleEmbedding_def)

lemma AngleEmbedding_checks_pass:
  "check_shape h features [length wires] ''max'' (features_msg h features wires) = None
   \<Longrightarrow> check_type h rotation [StrType] (rotation_type_msg rotation) = None
   \<Longrightarrow> check_is_in_options h rotation [PyStr ''X'', PyStr ''Y'', PyStr ''Z'']
         (rotation_option_msg rotation) = None
   \<Longrightarrow> AngleEmbedding h features wires (Some rotation) q =
        (if rotation = PyStr ''X'' then broadcast_no_shape_check h RX ''single'' wires features q
         else if rotation = PyStr ''Y'' then broadcast_no_shape_check h RY ''single'' wires features q
         else if rotation = PyStr ''Z'' then broadcast_no_shape_check h RZ ''single'' wires features q
         else (q, None))"
  by (simp add: AngleEmbedding_def)

lemma default_rotation_is_X:
  "AngleEmbedding h features wires None q = AngleEmbedding h features wires (Some (PyStr ''X'')) q"
  by (simp add: AngleEmbedding_def)

text \<open>
  Whatever the helpers, the queue after the template is the queue before it or the
  queue that \<open>broadcast\<close> left for the unitary of the rotation.
\<close>

lemma AngleEmbedding_queue:
  assumes "(U, r) \<in> {(RX, ''X''), (RY, ''Y''), (RZ, ''Z'')}"
  shows "fst (AngleEmbedding h features wires (Some (PyStr r)) q) = q
       \<or> fst (AngleEmbedding h features wires (Some (PyStr r)) q)
            = fst (broadcast h U ''single'' wires features q)"
  using assms
  by (auto simp: AngleEmbedding_def Let_def broadcast_no_shape_check_queue split: option.splits)

lemma AngleEmbedding_spec_ok:
  assumes "length features \<le> length wires"
    and "(U, r) \<in> {(RX, ''X''), (RY, ''Y''), (RZ, ''Z'')}"
  shows "AngleEmbedding spec_helpers features wires (Some (PyStr r)) q =
           (if length features = length wires then (q @ map2 U features wires, None) else (q, None))"
proof -
  have "AngleEmbedding spec_helpers features wires (Some (PyStr r)) q =
        (if PyStr r = PyStr ''X'' then broadcast_no_shape_check spec_helpers RX ''single'' wires features q
         else if PyStr r = PyStr ''Y'' then broadcast_no_shape_check spec_helpers RY ''single'' wires features q
         else if PyStr r = PyStr ''Z'' then broadcast_no_shape_check spec_helpers RZ ''single'' wires features q
         else (q, None))"
    using assms
    by (intro AngleEmbedding_checks_pass)
       (auto simp: check_shape_spec_1d check_type_spec_def check_is_in_options_spec_def)
  with assms(2) show ?thesis
    by (auto simp: broadcast_no_shape_check_spec)
qed

lemma map_op_wire_unitary:
  "(U, r) \<in> {(RX, ''X''), (RY, ''Y''), (RZ, ''Z'')} \<Longrightarrow> length features = length wires
   \<Longrightarrow> map op_wire (map2 U features wires) = wires"
  by (induction features wires rule: list_induct2') auto

lemma map_op_angle_unitary:
  "(U, r) \<in> {(RX, ''X''), (RY, ''Y''), (RZ, ''Z'')} \<Longrightarrow> length features = length wires
   \<Longrightarrow> map op_angle (map2 U features wires) = features"
  by (induction features wires rule: list_induct2') auto

lemma evaluate_eq:
  "evaluate us i params l = (map (\<lambda>u. u params) us, l @ map (\<lambda>k. (k, params)) [i..<i + length us])"
proof (induction us arbitrary: i l)
  case Nil
  show ?case by simp
next
  case (Cons u us)
  have "[i..<i + length (u # us)] = i # [Suc i..<Suc i + length us]"
    by (simp add: upt_rec)
  with Cons show ?case by simp
qed

lemma sum_collection_log:
  "snd (sum_collection (apply_spec backend) x l) = l"
  by (simp add: sum_collection_def apply_spec_def attribute_def split: option.splits sum.splits)

section \<open>The claims\<close>

text \<open>
  Claim C1 says that with fewer features than wires the template queues
  \<open>len(features)\<close> rotations; so do the docstrings of \<open>AngleEmbedding\<close> ("If there are
  fewer entries in \<open>features\<close> than rotations, the circuit does not apply the
  remaining rotation gates") and of \<open>_broadcast_no_shape_check\<close> ("to allow for fewer
  number of features as qubits"). The code does not: whatever the helpers, the queue
  after the template is the queue before it or the one \<open>broadcast\<close> left, since
  nothing runs after the exception is dropped; and over \<open>broadcast\<close> as the
  specification describes it, which raises the count mismatch before queuing, the
  template returns without an exception and with the queue as it was. So for features
  \<open>[0.1, 0.2]\<close> on wires \<open>[0, 1, 2]\<close> nothing is queued.
\<close>

theorem AngleEmbedding_fewer_features_queues_nothing:
  assumes "length features < length wires"
    and "(U, r) \<in> {(RX, ''X''), (RY, ''Y''), (RZ, ''Z'')}"
  shows "AngleEmbedding spec_helpers features wires (Some (PyStr r)) q = (q, None)
       \<and> (fst (AngleEmbedding h features wires (Some (PyStr r)) q) = q
            \<or> fst (AngleEmbedding h features wires (Some (PyStr r)) q)
                 = fst (broadcast h U ''single'' wires features q))
       \<and> AngleEmbedding spec_helpers [0.1 :: real, 0.2] [0 :: nat, 1, 2] (Some (PyStr ''X'')) []
            = ([], None)"
proof (intro conjI)
  have le: "length features \<le> length wires" using assms(1) by simp
  show "AngleEmbedding spec_helpers features wires (Some (PyStr r)) q = (q, None)"
    using AngleEmbedding_spec_ok [OF le assms(2), of q] assms(1) by simp
  show "fst (AngleEmbedding h features wires (Some (PyStr r)) q) = q
            \<or> fst (AngleEmbedding h features wires (Some (PyStr r)) q)
                 = fst (broadcast h U ''single'' wires features q)"
    by (rule AngleEmbedding_queue [OF assms(2)])
  have "(RX, ''X'') \<in> {(RX :: real \<Rightarrow> nat \<Rightarrow> (real, nat) operation, ''X''), (RY, ''Y''), (RZ, ''Z'')}"
    by simp
  from AngleEmbedding_spec_ok [OF _ this, of "[0.1, 0.2]" "[0, 1, 2]" "[]"]
  show "AngleEmbedding spec_helpers [0.1 :: real, 0.2] [0 :: nat, 1, 2] (Some (PyStr ''X'')) []
            = ([], None)"
    by simp
qed

theorem AngleEmbedding_fewer_features_queues_nothing_witness:
  "length [5::int, 7] < length [0::nat, 1, 2]
   \<and> AngleEmbedding spec_helpers [5::int, 7] [0::nat, 1, 2] (Some (PyStr ''Z'')) [RY 1 0]
        = ([RY 1 0], None)"
  using AngleEmbedding_fewer_features_queues_nothing
          [of "[5::int, 7]" "[0::nat, 1, 2]" RZ "''Z''" "[RY 1 0]" spec_helpers]
  by simp

text \<open>
  Claim C2. With more features than wires the template fails, whatever the
  \<open>rotation\<close>, with the \<open>ValueError\<close> of the shape check, whose message names the
  largest shape allowed \<open>(len(wires),)\<close> and the shape of \<open>features\<close>; the queue is
  left as it was.
\<close>

theorem AngleEmbedding_too_many_features:
  assumes "length wires < length features"
  shows "AngleEmbedding spec_helpers features wires rotation_arg q =
           (q, Some (ValueError (CHR 0x27 # ''features' must be of shape ('' @ str_nat (length wires)
                       @ '',) or smaller; got ('' @ str_nat (length features) @ '',).'')))"
proof -
  have "check_shape spec_helpers features [length wires] ''max'' (features_msg spec_helpers features wires)
          = Some (ValueError (features_msg spec_helpers features wires))"
    using assms by (simp add: check_shape_spec_1d)
  then have "AngleEmbedding spec_helpers features wires rotation_arg q
               = (q, Some (ValueError (features_msg spec_helpers features wires)))"
    by (rule AngleEmbedding_shape_fails)
  then show ?thesis
    by (simp add: features_msg_def get_shape_spec_def)
qed

theorem AngleEmbedding_too_many_features_witness:
  "length [0::nat, 1] < length [1::int, 2, 3]
   \<and> AngleEmbedding spec_helpers [1::int, 2, 3] [0::nat, 1] (Some (PyStr ''X'')) []
        = ([], Some (ValueError (CHR 0x27 # ''features' must be of shape (2,) or smaller; got (3,).'')))"
  using AngleEmbedding_too_many_features [of "[0::nat, 1]" "[1::int, 2, 3]" "Some (PyStr ''X'')" "[]"]
  by (simp add: str_nat.simps digit_char_def)

text \<open>
  Claim C3. \<open>_get_sum_func\<close> takes \<open>"tf"\<close> to \<open>tf.reduce_sum\<close>, \<open>"torch"\<close> to
  \<open>torch.sum\<close>, \<open>"autograd"\<close> and \<open>"numpy"\<close> to the \<open>sum\<close> of autograd's numpy, and
  \<open>None\<close> to the \<open>sum\<close> of numpy; every other value raises
  \<open>ValueError("Unknown interface ...")\<close>.
\<close>

theorem get_sum_func_table:
  "get_sum_func (PyStr ''tf'') = Inr tf_reduce_sum
   \<and> get_sum_func (PyStr ''torch'') = Inr torch_sum
   \<and> get_sum_func (PyStr ''autograd'') = Inr autograd_numpy_sum
   \<and> get_sum_func (PyStr ''numpy'') = Inr autograd_numpy_sum
   \<and> get_sum_func PyNone = Inr numpy_sum
   \<and> (interface \<notin> {PyStr ''tf'', PyStr ''torch'', PyStr ''autograd'', PyStr ''numpy'', PyNone}
        \<longrightarrow> get_sum_func interface = Inl (ValueError (''Unknown interface '' @ py_str interface)))"
  by (simp add: get_sum_func_def)

theorem get_sum_func_table_witness:
  "PyStr ''jax'' \<notin> {PyStr ''tf'', PyStr ''torch'', PyStr ''autograd'', PyStr ''numpy'', PyNone}
   \<and> get_sum_func (PyStr ''jax'') = Inl (ValueError ''Unknown interface jax'')
   \<and> PyInt 3 \<notin> {PyStr ''tf'', PyStr ''torch'', PyStr ''autograd'', PyStr ''numpy'', PyNone}
   \<and> get_sum_func (PyInt 3) = Inl (ValueError ''Unknown interface 3'')"
  using get_sum_func_table [of "PyStr ''jax''"] get_sum_func_table [of "PyInt 3"]
  by (simp add: str_int_def str_nat.simps digit_char_def)

text \<open>
  Claim C4. Whatever the imported validators and \<open>broadcast\<close> do, the template runs
  the shape check, then the type check, then the membership check: the first of them
  to fail decides the exception and leaves the queue as it was, and the queue can
  only have changed when all three have passed.
\<close>

theorem AngleEmbedding_validation_fail_fast:
  "(let rotation = (case rotation_arg of None \<Rightarrow> PyStr ''X'' | Some r \<Rightarrow> r);
        shape_check = check_shape h features [length wires] ''max'' (features_msg h features wires);
        type_check = check_type h rotation [StrType] (rotation_type_msg rotation);
        option_check = check_is_in_options h rotation [PyStr ''X'', PyStr ''Y'', PyStr ''Z'']
                         (rotation_option_msg rotation);
        result = AngleEmbedding h features wires rotation_arg q
    in (\<forall>e. shape_check = Some e \<longrightarrow> result = (q, Some e))
     \<and> (\<forall>e. shape_check = None \<and> type_check = Some e \<longrightarrow> result = (q, Some e))
     \<and> (\<forall>e. shape_check = None \<and> type_check = None \<and> option_check = Some e
              \<longrightarrow> result = (q, Some e))
     \<and> (fst result \<noteq> q \<longrightarrow> shape_check = None \<and> type_check = None \<and> option_check = None))"
  by (auto simp: AngleEmbedding_def Let_def split: option.splits)

theorem AngleEmbedding_validation_fail_fast_witness:
  "AngleEmbedding spec_helpers [1::int, 2] [0::nat] (Some (PyInt 5)) [RX 9 9]
     = ([RX 9 9], Some (ValueError (CHR 0x27 # ''features' must be of shape (1,) or smaller; got (2,).'')))
   \<and> AngleEmbedding spec_helpers [1::int] [0::nat] (Some (PyInt 5)) [RX 9 9]
     = ([RX 9 9], Some (ValueError (CHR 0x27 # ''rotation' must be a string; got 5'')))
   \<and> AngleEmbedding spec_helpers [1::int] [0::nat] (Some (PyStr ''W'')) [RX 9 9]
     = ([RX 9 9], Some (ValueError ''did not recognize option W for 'rotation'.''))
   \<and> fst (AngleEmbedding spec_helpers [1::int] [0::nat] (Some (PyStr ''Z'')) [RX 9 9]) \<noteq> [RX 9 9]
   \<and> check_shape_spec [1::int] [1] ''max'' (features_msg spec_helpers [1::int] [0::nat]) = None
   \<and> check_type_spec (PyStr ''Z'') [StrType] (rotation_type_msg (PyStr ''Z'')) = None
   \<and> check_is_in_options_spec (PyStr ''Z'') [PyStr ''X'', PyStr ''Y'', PyStr ''Z'']
         (rotation_option_msg (PyStr ''Z'')) = None"
proof -
  have "(RZ, ''Z'') \<in> {(RX :: int \<Rightarrow> nat \<Rightarrow> (int, nat) operation, ''X''), (RY, ''Y''), (RZ, ''Z'')}"
    by simp
  from AngleEmbedding_spec_ok [OF _ this, of "[1]" "[0]" "[RX 9 9]"]
  have run: "fst (AngleEmbedding spec_helpers [1::int] [0::nat] (Some (PyStr ''Z'')) [RX 9 9]) \<noteq> [RX 9 9]"
    by simp
  show ?thesis
    using run
        AngleEmbedding_validation_fail_fast [of "Some (PyInt 5)" spec_helpers "[1::int, 2]" "[0::nat]" "[RX 9 9]"]
        AngleEmbedding_validation_fail_fast [of "Some (PyInt 5)" spec_helpers "[1::int]" "[0::nat]" "[RX 9 9]"]
        AngleEmbedding_validation_fail_fast [of "Some (PyStr ''W'')" spec_helpers "[1::int]" "[0::nat]" "[RX 9 9]"]
        AngleEmbedding_validation_fail_fast [of "Some (PyStr ''Z'')" spec_helpers "[1::int]" "[0::nat]" "[RX 9 9]"]
    by (simp add: Let_def check_shape_spec_1d check_type_spec_def check_is_in_options_spec_def
          features_msg_def rotation_type_msg_def rotation_option_msg_def get_shape_spec_def
          str_int_def str_nat.simps digit_char_def)
qed

text \<open>
  Claim C5, as the code has it. For features that pass the shape check
  (\<open>len(features) \<le> len(wires)\<close>), a \<open>rotation\<close> that is not a string fails with the
  exception of the type check, which carries the message
  \<open>'rotation' must be a string; got ...\<close>, and a string other than \<open>"X"\<close>, \<open>"Y"\<close>,
  \<open>"Z"\<close> fails with the exception of the membership check, which carries the message
  \<open>did not recognize option ... for 'rotation'.\<close>; both are \<open>ValueError\<close>s, the class
  the docstring of \<open>AngleEmbedding\<close> announces. Whatever the validators raise, the
  exception of a failing type check is the one that reaches the caller, before the
  membership check is run. The queue is left as it was.
\<close>

theorem AngleEmbedding_rotation_errors:
  assumes "length features \<le> length wires"
  shows "(type_of rotation \<noteq> StrType \<longrightarrow>
            AngleEmbedding spec_helpers features wires (Some rotation) q
              = (q, Some (ValueError (CHR 0x27 # ''rotation' must be a string; got '' @ py_str rotation))))
       \<and> (s \<notin> {''X'', ''Y'', ''Z''} \<longrightarrow>
            AngleEmbedding spec_helpers features wires (Some (PyStr s)) q
              = (q, Some (ValueError (''did not recognize option '' @ s @ '' for 'rotation'.''))))
       \<and> (\<forall>h e. check_shape h features [length wires] ''max'' (features_msg h features wires) = None
                \<and> check_type h rotation [StrType] (rotation_type_msg rotation) = Some e
              \<longrightarrow> AngleEmbedding h features wires (Some rotation) q = (q, Some e))
       \<and> (\<forall>h e. check_shape h features [length wires] ''max'' (features_msg h features wires) = None
                \<and> check_type h rotation [StrType] (rotation_type_msg rotation) = None
                \<and> check_is_in_options h rotation [PyStr ''X'', PyStr ''Y'', PyStr ''Z'']
                     (rotation_option_msg rotation) = Some e
              \<longrightarrow> AngleEmbedding h features wires (Some rotation) q = (q, Some e))"
proof (intro conjI impI allI)
  have shape: "check_shape spec_helpers features [length wires] ''max'' (features_msg spec_helpers features wires) = None"
    using assms by (simp add: check_shape_spec_1d)
  {
    assume "type_of rotation \<noteq> StrType"
    then have "check_type spec_helpers rotation [StrType] (rotation_type_msg rotation)
                 = Some (ValueError (rotation_type_msg rotation))"
      by (simp add: check_type_spec_str)
    from AngleEmbedding_type_fails [OF shape this]
    show "AngleEmbedding spec_helpers features wires (Some rotation) q
            = (q, Some (ValueError (CHR 0x27 # ''rotation' must be a string; got '' @ py_str rotation)))"
      by (simp add: rotation_type_msg_def)
  }
  {
    assume "s \<notin> {''X'', ''Y'', ''Z''}"
    then have opt: "check_is_in_options spec_helpers (PyStr s) [PyStr ''X'', PyStr ''Y'', PyStr ''Z'']
                 (rotation_option_msg (PyStr s)) = Some (ValueError (rotation_option_msg (PyStr s)))"
      by (simp add: check_is_in_options_spec_def)
    have ty: "check_type spec_helpers (PyStr s) [StrType] (rotation_type_msg (PyStr s)) = None"
      by (simp add: check_type_spec_str)
    from AngleEmbedding_option_fails [OF shape ty opt]
    show "AngleEmbedding spec_helpers features wires (Some (PyStr s)) q
            = (q, Some (ValueError (''did not recognize option '' @ s @ '' for 'rotation'.'')))"
      by (simp add: rotation_option_msg_def)
  }
  {
    fix h :: "('a, 'b) helpers" and e
    assume "check_shape h features [length wires] ''max'' (features_msg h features wires) = None
                \<and> check_type h rotation [StrType] (rotation_type_msg rotation) = Some e"
    then show "AngleEmbedding h features wires (Some rotation) q = (q, Some e)"
      by (simp add: AngleEmbedding_type_fails)
  }
  {
    fix h :: "('a, 'b) helpers" and e
    assume "check_shape h features [length wires] ''max'' (features_msg h features wires) = None
                \<and> check_type h rotation [StrType] (rotation_type_msg rotation) = None
                \<and> check_is_in_options h rotation [PyStr ''X'', PyStr ''Y'', PyStr ''Z'']
                     (rotation_option_msg rotation) = Some e"
    then show "AngleEmbedding h features wires (Some rotation) q = (q, Some e)"
      by (simp add: AngleEmbedding_option_fails)
  }
qed

theorem AngleEmbedding_rotation_errors_witness:
  "length [1::int] \<le> length [0::nat] \<and> type_of PyNone \<noteq> StrType \<and> ''XY'' \<notin> {''X'', ''Y'', ''Z''}
   \<and> AngleEmbedding spec_helpers [1::int] [0::nat] (Some PyNone) []
        = ([], Some (ValueError (CHR 0x27 # ''rotation' must be a string; got None'')))
   \<and> AngleEmbedding spec_helpers [1::int] [0::nat] (Some (PyStr ''XY'')) []
        = ([], Some (ValueError ''did not recognize option XY for 'rotation'.''))"
  using AngleEmbedding_rotation_errors [of "[1::int]" "[0::nat]" PyNone "[]" "''XY''"]
  by simp

text \<open>
  As C5 is stated it does not hold. One feature on one wire with the rotation \<open>5\<close>
  fails with a \<open>ValueError\<close>, which is not a \<open>TypeError\<close>; with the rotation \<open>"W"\<close> it
  fails with a \<open>ValueError\<close> again. And the shape check comes first: two features on
  one wire with the rotation \<open>5\<close> fail with the exception of the shape check.
\<close>

theorem AngleEmbedding_rotation_errors_counterexample:
  "type_of (PyInt 5) \<noteq> StrType
   \<and> AngleEmbedding spec_helpers [1::int] [0::nat] (Some (PyInt 5)) []
       = ([], Some (ValueError (CHR 0x27 # ''rotation' must be a string; got 5'')))
   \<and> AngleEmbedding spec_helpers [1::int] [0::nat] (Some (PyStr ''W'')) []
       = ([], Some (ValueError ''did not recognize option W for 'rotation'.''))
   \<and> AngleEmbedding spec_helpers [1::int, 2] [0::nat] (Some (PyInt 5)) []
       = ([], Some (ValueError (CHR 0x27 # ''features' must be of shape (1,) or smaller; got (2,).'')))"
  by (simp add: AngleEmbedding_def check_shape_spec_1d check_type_spec_def check_is_in_options_spec_def
        features_msg_def rotation_type_msg_def rotation_option_msg_def get_shape_spec_def
        str_int_def str_nat.simps digit_char_def)

text \<open>
  Claim C6. Building \<open>sum(x)\<close> evaluates no unit, for any collection: the log is as
  before. When the interface is known, the function returned evaluates every unit
  once, in order, each time it is called, whatever was evaluated before: calling it
  twice with the same parameters logs two full rounds. This is over \<open>apply\<close> as the
  specification describes it.
\<close>

theorem sum_collection_lazy:
  "snd (sum_collection (apply_spec backend) x l) = l
   \<and> (attrs x ''interface'' = Some i \<and> get_sum_func i = Inr sum_fn \<longrightarrow>
        (\<exists>f. sum_collection (apply_spec backend) x l = (Inr f, l)
           \<and> (\<forall>params l1. f params l1 =
                 (backend sum_fn (map (\<lambda>u. u params) (qnodes x)),
                  l1 @ map (\<lambda>k. (k, params)) [0..<length (qnodes x)]))
           \<and> (\<forall>params l1. snd (f params (snd (f params l1))) =
                  l1 @ map (\<lambda>k. (k, params)) [0..<length (qnodes x)]
                     @ map (\<lambda>k. (k, params)) [0..<length (qnodes x)])))"
proof (intro conjI impI)
  show "snd (sum_collection (apply_spec backend) x l) = l"
    by (rule sum_collection_log)
next
  assume a: "attrs x ''interface'' = Some i \<and> get_sum_func i = Inr sum_fn"
  let ?f = "\<lambda>params l'. case evaluate (qnodes x) 0 params l' of (rs, l'') \<Rightarrow> (backend sum_fn rs, l'')"
  have "sum_collection (apply_spec backend) x l = (Inr ?f, l)"
    using a by (simp add: sum_collection_def apply_spec_def attribute_def)
  moreover have "\<forall>params l1. ?f params l1 =
                 (backend sum_fn (map (\<lambda>u. u params) (qnodes x)),
                  l1 @ map (\<lambda>k. (k, params)) [0..<length (qnodes x)])"
    by (simp add: evaluate_eq)
  ultimately show "\<exists>f. sum_collection (apply_spec backend) x l = (Inr f, l)
           \<and> (\<forall>params l1. f params l1 =
                 (backend sum_fn (map (\<lambda>u. u params) (qnodes x)),
                  l1 @ map (\<lambda>k. (k, params)) [0..<length (qnodes x)]))
           \<and> (\<forall>params l1. snd (f params (snd (f params l1))) =
                  l1 @ map (\<lambda>k. (k, params)) [0..<length (qnodes x)]
                     @ map (\<lambda>k. (k, params)) [0..<length (qnodes x)])"
    by (intro exI [of _ ?f]) simp
qed

theorem sum_collection_lazy_witness:
  "(case sum_collection (apply_spec (\<lambda>fn. sum_list))
           \<lparr>attrs = [''interface'' \<mapsto> PyStr ''torch''], qnodes = [\<lambda>p :: int. p + 1, \<lambda>p. 2 * p]\<rparr> [] of
      (Inr f, l) \<Rightarrow> l = [] \<and> f 3 [] = (10 :: int, [(0, 3), (1, 3)])
                     \<and> f 3 [(0, 3), (1, 3)] = (10, [(0, 3), (1, 3), (0, 3), (1, 3)])
    | (Inl e, l) \<Rightarrow> False)"
  using sum_collection_lazy [of "\<lambda>fn. sum_list"
          "\<lparr>attrs = [''interface'' \<mapsto> PyStr ''torch''], qnodes = [\<lambda>p :: int. p + 1, \<lambda>p. 2 * p]\<rparr>"
          "[]" "PyStr ''torch''" torch_sum]
  by (auto simp: get_sum_func_def upt_rec)

text \<open>
  Claim C7 has two parts. With as many features as wires and a rotation among
  \<open>"X"\<close>, \<open>"Y"\<close>, \<open>"Z"\<close>, the template queues one rotation of that family for each
  wire, in the order of the wires, with the features as angles in order: this holds.
  Its example, features \<open>[0.1, 0.2]\<close> on wires \<open>[0, 1, 2]\<close> with \<open>"Y"\<close>, has fewer
  features than wires, and there the code queues nothing, where the claim and the
  docstring of \<open>AngleEmbedding\<close> expect \<open>RY(0.1)\<close> on wire 0 and \<open>RY(0.2)\<close> on wire 1.
  Both parts are over \<open>broadcast\<close> as the specification describes it.
\<close>

theorem AngleEmbedding_equal_length:
  "(length features = length wires \<and> (U, r) \<in> {(RX, ''X''), (RY, ''Y''), (RZ, ''Z'')} \<longrightarrow>
      (let ops = map2 U features wires in
         AngleEmbedding spec_helpers features wires (Some (PyStr r)) q = (q @ ops, None)
       \<and> length ops = length wires
       \<and> map op_wire ops = wires
       \<and> map op_angle ops = features
       \<and> (\<forall>i < length wires. ops ! i = U (features ! i) (wires ! i))))
   \<and> AngleEmbedding spec_helpers [0.1 :: real, 0.2] [0 :: nat, 1, 2] (Some (PyStr ''Y'')) []
       = ([], None)"
proof (intro conjI impI)
  assume a: "length features = length wires \<and> (U, r) \<in> {(RX, ''X''), (RY, ''Y''), (RZ, ''Z'')}"
  then have len: "length features = length wires"
    and ur: "(U, r) \<in> {(RX, ''X''), (RY, ''Y''), (RZ, ''Z'')}" by simp_all
  have "AngleEmbedding spec_helpers features wires (Some (PyStr r)) q = (q @ map2 U features wires, None)"
    using AngleEmbedding_spec_ok [OF _ ur, of features wires q] len by simp
  moreover have "\<forall>i < length wires. map2 U features wires ! i = U (features ! i) (wires ! i)"
    using len by simp
  ultimately show "let ops = map2 U features wires in
         AngleEmbedding spec_helpers features wires (Some (PyStr r)) q = (q @ ops, None)
       \<and> length ops = length wires
       \<and> map op_wire ops = wires
       \<and> map op_angle ops = features
       \<and> (\<forall>i < length wires. ops ! i = U (features ! i) (wires ! i))"
    unfolding Let_def
    using len map_op_wire_unitary [OF ur len] map_op_angle_unitary [OF ur len] by simp
next
  have "(RY, ''Y'') \<in> {(RX :: real \<Rightarrow> nat \<Rightarrow> (real, nat) operation, ''X''), (RY, ''Y''), (RZ, ''Z'')}"
    by simp
  from AngleEmbedding_spec_ok [OF _ this, of "[0.1, 0.2]" "[0, 1, 2]" "[]"]
  show "AngleEmbedding spec_helpers [0.1 :: real, 0.2] [0 :: nat, 1, 2] (Some (PyStr ''Y'')) []
       = ([], None)"
    by simp
qed

theorem AngleEmbedding_equal_length_witness:
  "length [3 :: int, 4] = length [10 :: nat, 11]
   \<and> AngleEmbedding spec_helpers [3 :: int, 4] [10 :: nat, 11] (Some (PyStr ''X'')) [] = ([RX 3 10, RX 4 11], None)"
  using AngleEmbedding_equal_length [of "[3 :: int, 4]" "[10 :: nat, 11]" RX "''X''" "[]"]
  by (simp add: Let_def)

text \<open>
  Claim C8. When \<open>broadcast\<close> raises, \<open>_broadcast_no_shape_check\<close> drops the exception
  exactly when it is a \<open>ValueError\<close> (an instance of the class or of a subclass, which
  is what \<open>except ValueError\<close> catches) whose message contains
  \<open>"must contain entries for {len(wires)} unitaries"\<close>, and passes every other
  exception on as it is; so does \<open>AngleEmbedding\<close> once its three checks have passed.
  What \<open>broadcast\<close> queued before raising stays queued. This holds for any
  \<open>broadcast\<close>.
\<close>

theorem broadcast_error_swallowed_iff:
  assumes "broadcast h unitary pattern wires parameters q = (q', Some e)"
  shows "broadcast_no_shape_check h unitary pattern wires parameters q =
           (q', if (\<exists>s. as_ValueError e = Some s
                      \<and> sublist (''must contain entries for '' @ str_nat (length wires) @ '' unitaries'') s)
                then None else Some e)
       \<and> (check_shape h parameters [length wires] ''max'' (features_msg h parameters wires) = None
          \<and> check_type h (PyStr r) [StrType] (rotation_type_msg (PyStr r)) = None
          \<and> check_is_in_options h (PyStr r) [PyStr ''X'', PyStr ''Y'', PyStr ''Z'']
               (rotation_option_msg (PyStr r)) = None
          \<and> (unitary, r) \<in> {(RX, ''X''), (RY, ''Y''), (RZ, ''Z'')} \<and> pattern = ''single''
          \<longrightarrow> AngleEmbedding h parameters wires (Some (PyStr r)) q =
                (q', if (\<exists>s. as_ValueError e = Some s
                      \<and> sublist (''must contain entries for '' @ str_nat (length wires) @ '' unitaries'') s)
                     then None else Some e))"
proof -
  have b: "broadcast_no_shape_check h unitary pattern wires parameters q =
           (q', if (\<exists>s. as_ValueError e = Some s
                      \<and> sublist (''must contain entries for '' @ str_nat (length wires) @ '' unitaries'') s)
                then None else Some e)"
    using assms by (cases "as_ValueError e") (simp_all add: broadcast_no_shape_check_def)
  show ?thesis
  proof (intro conjI impI)
    show "broadcast_no_shape_check h unitary pattern wires parameters q =
           (q', if (\<exists>s. as_ValueError e = Some s
                      \<and> sublist (''must contain entries for '' @ str_nat (length wires) @ '' unitaries'') s)
                then None else Some e)"
      by (rule b)
  next
    assume a: "check_shape h parameters [length wires] ''max'' (features_msg h parameters wires) = None
          \<and> check_type h (PyStr r) [StrType] (rotation_type_msg (PyStr r)) = None
          \<and> check_is_in_options h (PyStr r) [PyStr ''X'', PyStr ''Y'', PyStr ''Z'']
               (rotation_option_msg (PyStr r)) = None
          \<and> (unitary, r) \<in> {(RX, ''X''), (RY, ''Y''), (RZ, ''Z'')} \<and> pattern = ''single''"
    then have "AngleEmbedding h parameters wires (Some (PyStr r)) q =
                 broadcast_no_shape_check h unitary pattern wires parameters q"
      by (auto simp: AngleEmbedding_checks_pass)
    with b show "AngleEmbedding h parameters wires (Some (PyStr r)) q =
                (q', if (\<exists>s. as_ValueError e = Some s
                      \<and> sublist (''must contain entries for '' @ str_nat (length wires) @ '' unitaries'') s)
                     then None else Some e)"
      by simp
  qed
qed

theorem broadcast_error_swallowed_iff_witness:
  "AngleEmbedding (spec_helpers\<lparr>broadcast := \<lambda>U p ws ps q. (q, Some (ValueError ''Parameters must contain entries for 1 unitaries; got 0 entries''))\<rparr>)
       [7 :: int] [0 :: nat] (Some (PyStr ''X'')) [] = ([], None)
   \<and> AngleEmbedding (spec_helpers\<lparr>broadcast := \<lambda>U p ws ps q. (q, Some (ValueErrorSubclass ''UnicodeDecodeError'' ''must contain entries for 1 unitaries''))\<rparr>)
       [7 :: int] [0 :: nat] (Some (PyStr ''X'')) [] = ([], None)
   \<and> AngleEmbedding (spec_helpers\<lparr>broadcast := \<lambda>U p ws ps q. (q, Some (ValueError ''Parameters must contain entries for 2 unitaries; got 1 entries''))\<rparr>)
       [7 :: int] [0 :: nat] (Some (PyStr ''X'')) []
       = ([], Some (ValueError ''Parameters must contain entries for 2 unitaries; got 1 entries''))
   \<and> AngleEmbedding (spec_helpers\<lparr>broadcast := \<lambda>U p ws ps q. (q @ [U 7 0], Some (TypeError ''must contain entries for 1 unitaries''))\<rparr>)
       [7 :: int] [0 :: nat] (Some (PyStr ''X'')) []
       = ([RX 7 0], Some (TypeError ''must contain entries for 1 unitaries''))"
  using broadcast_error_swallowed_iff
          [of "spec_helpers\<lparr>broadcast := \<lambda>U p ws ps q. (q, Some (ValueError ''Parameters must contain entries for 1 unitaries; got 0 entries''))\<rparr>"
              RX "''single''" "[0 :: nat]" "[7 :: int]" "[]" "[]"
              "ValueError ''Parameters must contain entries for 1 unitaries; got 0 entries''" "''X''"]
        broadcast_error_swallowed_iff
          [of "spec_helpers\<lparr>broadcast := \<lambda>U p ws ps q. (q, Some (ValueErrorSubclass ''UnicodeDecodeError'' ''must contain entries for 1 unitaries''))\<rparr>"
              RX "''single''" "[0 :: nat]" "[7 :: int]" "[]" "[]"
              "ValueErrorSubclass ''UnicodeDecodeError'' ''must contain entries for 1 unitaries''" "''X''"]
        broadcast_error_swallowed_iff
          [of "spec_helpers\<lparr>broadcast := \<lambda>U p ws ps q. (q, Some (ValueError ''Parameters must contain entries for 2 unitaries; got 1 entries''))\<rparr>"
              RX "''single''" "[0 :: nat]" "[7 :: int]" "[]" "[]"
              "ValueError ''Parameters must contain entries for 2 unitaries; got 1 entries''" "''X''"]
        broadcast_error_swallowed_iff
          [of "spec_helpers\<lparr>broadcast := \<lambda>U p ws ps q. (q @ [U 7 0], Some (TypeError ''must contain entries for 1 unitaries''))\<rparr>"
              RX "''single''" "[0 :: nat]" "[7 :: int]" "[]" "[RX 7 0]"
              "TypeError ''must contain entries for 1 unitaries''" "''X''"]
  by (simp add: check_shape_spec_1d check_type_spec_def check_is_in_options_spec_def
        str_nat.simps digit_char_def sublist_code)

text \<open>
  Claim C9. For an object without an \<open>interface\<close> attribute, \<open>sum\<close> raises
  \<open>AttributeError\<close>, although \<open>getattr(x, "interface", None)\<close> on the line before gave
  \<open>None\<close>, for which \<open>_get_sum_func\<close> would have returned the \<open>sum\<close> of numpy.
\<close>

theorem sum_collection_missing_interface:
  assumes "attrs x ''interface'' = None"
  shows "sum_collection apply_fn x l = (Inl (AttributeError ''interface''), l)
       \<and> getattr x ''interface'' PyNone = PyNone
       \<and> get_sum_func (getattr x ''interface'' PyNone) = Inr numpy_sum"
  using assms by (simp add: sum_collection_def attribute_def getattr_def get_sum_func_def)

theorem sum_collection_missing_interface_witness:
  "sum_collection (apply_spec (\<lambda>fn. sum_list)) \<lparr>attrs = Map.empty, qnodes = [\<lambda>p. p + (1 :: int)]\<rparr> []
     = (Inl (AttributeError ''interface''), [])"
  using sum_collection_missing_interface
          [of "\<lparr>attrs = Map.empty, qnodes = [\<lambda>p. p + (1 :: int)]\<rparr>" "apply_spec (\<lambda>fn. sum_list)" "[]"]
  by simp

text \<open>
  Claim C10. Calling the template without \<open>rotation\<close> is calling it with \<open>"X"\<close>,
  whatever the helpers: it either fails in a check, the queue left as it was, or
  hands \<open>RX\<close> to \<open>_broadcast_no_shape_check\<close>, so that the queue afterwards is the
  queue before or the one \<open>broadcast\<close> left when given \<open>RX\<close>. Over \<open>broadcast\<close> as the
  specification describes it, as many features as wires queue one \<open>RX\<close> rotation for
  each wire.
\<close>

theorem AngleEmbedding_default_rotation:
  "AngleEmbedding h features wires None q = AngleEmbedding h features wires (Some (PyStr ''X'')) q
   \<and> (AngleEmbedding h features wires None q = broadcast_no_shape_check h RX ''single'' wires features q
        \<or> (\<exists>e. AngleEmbedding h features wires None q = (q, Some e)))
   \<and> (fst (AngleEmbedding h features wires None q) = q
        \<or> fst (AngleEmbedding h features wires None q) = fst (broadcast h RX ''single'' wires features q))
   \<and> (length features = length wires \<longrightarrow>
         AngleEmbedding spec_helpers features wires None q = (q @ map2 RX features wires, None)
       \<and> list_all is_RX (map2 RX features wires))"
proof (intro conjI impI)
  have rx: "(RX, ''X'') \<in> {(RX :: 'c \<Rightarrow> 'd \<Rightarrow> ('c, 'd) operation, ''X''), (RY, ''Y''), (RZ, ''Z'')}"
    by simp
  show "AngleEmbedding h features wires None q = AngleEmbedding h features wires (Some (PyStr ''X'')) q"
    by (rule default_rotation_is_X)
  show "AngleEmbedding h features wires None q = broadcast_no_shape_check h RX ''single'' wires features q
        \<or> (\<exists>e. AngleEmbedding h features wires None q = (q, Some e))"
    by (simp add: AngleEmbedding_def Let_def split: option.splits)
  show "fst (AngleEmbedding h features wires None q) = q
        \<or> fst (AngleEmbedding h features wires None q) = fst (broadcast h RX ''single'' wires features q)"
    using AngleEmbedding_queue [OF rx, of h features wires q]
    by (simp add: default_rotation_is_X)
  show "list_all is_RX (map2 RX features wires)"
    by (auto simp: list_all_iff)
  assume len: "length features = length wires"
  then have "length features \<le> length wires" by simp
  from AngleEmbedding_spec_ok [OF this rx, of q] len
  show "AngleEmbedding spec_helpers features wires None q = (q @ map2 RX features wires, None)"
    by (simp add: default_rotation_is_X)
qed

theorem AngleEmbedding_default_rotation_witness:
  "length [3 :: int, 4] = length [10 :: nat, 11]
   \<and> AngleEmbedding spec_helpers [3 :: int, 4] [10 :: nat, 11] None [] = ([RX 3 10, RX 4 11], None)
   \<and> AngleEmbedding spec_helpers [3 :: int, 4] [10 :: nat, 11] (Some (PyStr ''X'')) []
        = ([RX 3 10, RX 4 11], None)"
  using AngleEmbedding_default_rotation [of spec_helpers "[3 :: int, 4]" "[10 :: nat, 11]" "[]"]
  by auto

end
